theory Spec2Isabelle
  imports Main "HOL-Library.Word"
begin

section \<open>The relay endpoint \<open>api_proxy\<close> of \<open>app.py\<close>\<close>

text \<open>
  The theory embeds the handler of \<^verbatim>\<open>POST /api/proxy\<close> (\<^verbatim>\<open>app.py\<close>, lines 97-137).
  The handler reads the decoded JSON payload, extracts four fields, refuses a payload
  without a target, removes four header spellings, calls \<^verbatim>\<open>requests.request\<close> and
  turns its result (a response or an exception) into the Flask response.

  What the handler receives from its libraries is a parameter of the model:
  what \<^verbatim>\<open>request.get_json(silent=True)\<close> does with the body, the behaviour of
  \<^verbatim>\<open>requests.request\<close>, the characters the console encodes, and Python's case
  conversion outside ASCII.
\<close>

subsection \<open>Python values\<close>

text \<open>
  A Python \<^verbatim>\<open>str\<close> is a sequence of Unicode code points. Literals of the source
  are written \<open>py ''...''\<close>.
\<close>

type_synonym pystr = "nat list"

definition py :: "string \<Rightarrow> pystr" where
  "py s = map of_char s"

type_synonym bytes = "8 word list"

text \<open>
  A Python \<^verbatim>\<open>float\<close> as the JSON decoder produces it: a finite value
  \<open>(-1)^s * m * 2^e\<close>, an infinity or a NaN (the decoder accepts \<^verbatim>\<open>Infinity\<close>
  and \<^verbatim>\<open>NaN\<close>). The handler only ever tests a float for truth.
\<close>

datatype pyfloat = Finite bool nat int | Infinite bool | NaN

text \<open>
  The values \<^verbatim>\<open>json.loads\<close> produces. \<open>JNull\<close> is Python's \<^verbatim>\<open>None\<close>. A
  \<^verbatim>\<open>dict\<close> is the list of its items in insertion order; the decoder delivers
  distinct keys.
\<close>

datatype json =
    JNull
  | JBool bool
  | JInt int
  | JFloat pyfloat
  | JStr pystr
  | JList "json list"
  | JObj "(pystr \<times> json) list"

text \<open>Python's truth value of an object, as \<^verbatim>\<open>or\<close> and \<^verbatim>\<open>not\<close> test it.\<close>

fun truthy :: "json \<Rightarrow> bool" where
  "truthy JNull = False"
| "truthy (JBool b) = b"
| "truthy (JInt n) = (n \<noteq> 0)"
| "truthy (JFloat (Finite s m e)) = (m \<noteq> 0)"
| "truthy (JFloat (Infinite s)) = True"
| "truthy (JFloat NaN) = True"
| "truthy (JStr s) = (s \<noteq> [])"
| "truthy (JList xs) = (xs \<noteq> [])"
| "truthy (JObj kvs) = (kvs \<noteq> [])"

text \<open>\<^verbatim>\<open>a or b\<close>: the first operand when it is true, the second otherwise.\<close>

definition py_or :: "json \<Rightarrow> json \<Rightarrow> json" where
  "py_or a b = (if truthy a then a else b)"

text \<open>
  The exceptions that leave the handler: an attribute a value does not have
  (\<^verbatim>\<open>.get\<close>, \<^verbatim>\<open>.upper\<close>, \<^verbatim>\<open>.pop\<close>), \<^verbatim>\<open>list.pop\<close> called with two
  arguments, the JSON decoder giving up on a body that is nested too deeply, and
  \<^verbatim>\<open>print\<close> meeting a character the console cannot encode.
\<close>

datatype exc = AttributeError | TypeError | RecursionError | UnicodeEncodeError

text \<open>\<^verbatim>\<open>d.get(k)\<close> on the items of a dict: \<^verbatim>\<open>None\<close> for a key that is absent.\<close>

definition dict_get :: "(pystr \<times> json) list \<Rightarrow> pystr \<Rightarrow> json" where
  "dict_get d k = (case map_of d k of None \<Rightarrow> JNull | Some v \<Rightarrow> v)"

text \<open>\<^verbatim>\<open>data.get(k)\<close>: only a dict has the method.\<close>

fun get :: "json \<Rightarrow> pystr \<Rightarrow> exc + json" where
  "get (JObj d) k = Inr (dict_get d k)"
| "get _ k = Inl AttributeError"

subsection \<open>Case conversion\<close>

text \<open>
  \<^verbatim>\<open>str.upper\<close> and \<^verbatim>\<open>str.lower\<close> on a string of ASCII characters convert
  the letters. On any other string the result comes from the Unicode tables of the
  interpreter, which are a parameter (\<open>upper_unicode\<close>, \<open>lower_unicode\<close>).
\<close>

definition ascii_upper :: "nat \<Rightarrow> nat" where
  "ascii_upper c = (if 97 \<le> c \<and> c \<le> 122 then c - 32 else c)"

definition ascii_lower :: "nat \<Rightarrow> nat" where
  "ascii_lower c = (if 65 \<le> c \<and> c \<le> 90 then c + 32 else c)"

definition is_ascii :: "pystr \<Rightarrow> bool" where
  "is_ascii s = list_all (\<lambda>c. c < 128) s"

subsection \<open>The outbound call and its result\<close>

text \<open>
  The arguments of \<^verbatim>\<open>requests.request(method, target_url, **kwargs)\<close>.
  \<open>kw_json\<close> is \<open>None\<close> when \<^verbatim>\<open>kwargs\<close> has no key \<^verbatim>\<open>json\<close>.
\<close>

record outbound =
  req_method :: pystr
  req_url :: json
  kw_headers :: json
  kw_timeout :: int
  kw_json :: "json option"

text \<open>
  The attributes of the \<^verbatim>\<open>requests.Response\<close> the handler reads;
  \<open>resp_headers\<close> are the items of \<^verbatim>\<open>resp.headers\<close>.
\<close>

record upstream =
  status_code :: int
  content :: bytes
  resp_headers :: "(pystr \<times> pystr) list"

text \<open>
  \<^verbatim>\<open>requests.request\<close> returns a response or raises; \<open>Raised msg\<close> is an
  exception \<^verbatim>\<open>exc\<close> with \<^verbatim>\<open>str(exc) = msg\<close> (a refused connection, a
  failed lookup, an expired time-out, an argument it rejects).
\<close>

datatype outcome = Responded upstream | Raised pystr

text \<open>
  \<open>stdout_encodes\<close> says which code points outside ASCII the encoding of
  \<^verbatim>\<open>sys.stdout\<close> can encode.
\<close>

record runtime =
  upper_unicode :: "pystr \<Rightarrow> pystr"
  lower_unicode :: "pystr \<Rightarrow> pystr"
  requests_request :: "outbound \<Rightarrow> outcome"
  stdout_encodes :: "nat \<Rightarrow> bool"

definition str_upper :: "runtime \<Rightarrow> pystr \<Rightarrow> pystr" where
  "str_upper rt s = (if is_ascii s then map ascii_upper s else upper_unicode rt s)"

definition str_lower :: "runtime \<Rightarrow> pystr \<Rightarrow> pystr" where
  "str_lower rt s = (if is_ascii s then map ascii_lower s else lower_unicode rt s)"

text \<open>\<^verbatim>\<open>x.upper()\<close>: only a \<^verbatim>\<open>str\<close> has the method.\<close>

fun upper :: "runtime \<Rightarrow> json \<Rightarrow> exc + pystr" where
  "upper rt (JStr s) = Inr (str_upper rt s)"
| "upper rt _ = Inl AttributeError"

subsection \<open>The handler\<close>

text \<open>
  What the request body is to \<^verbatim>\<open>request.get_json(silent=True)\<close>: a body that decodes
  to a value (\<open>Json\<close>); a body that is absent, is not declared as JSON, or on which the
  decoder raises a \<^verbatim>\<open>ValueError\<close> (\<open>NoJson\<close>), for which \<^verbatim>\<open>silent=True\<close> gives
  \<^verbatim>\<open>None\<close>; and a body nested so deeply that the decoder raises
  \<^verbatim>\<open>RecursionError\<close> (\<open>TooDeep\<close>), which \<^verbatim>\<open>silent=True\<close> does not catch.
\<close>

datatype inbound = NoJson | Json json | TooDeep

fun get_json :: "inbound \<Rightarrow> exc + json" where
  "get_json NoJson = Inr JNull"
| "get_json (Json j) = Inr j"
| "get_json TooDeep = Inl RecursionError"

text \<open>Line 105: \<^verbatim>\<open>data = request.get_json(silent=True) or {}\<close>.\<close>

definition payload :: "inbound \<Rightarrow> exc + json" where
  "payload request =
     (case get_json request of Inl e \<Rightarrow> Inl e | Inr v \<Rightarrow> Inr (py_or v (JObj [])))"

text \<open>
  \<^verbatim>\<open>headers.pop(h, None)\<close>: a dict loses the key; a list rejects the second
  argument; no other value has the method.
\<close>

fun pop :: "json \<Rightarrow> pystr \<Rightarrow> exc + json" where
  "pop (JObj d) h = Inr (JObj (filter (\<lambda>kv. fst kv \<noteq> h) d))"
| "pop (JList xs) h = Inl TypeError"
| "pop _ h = Inl AttributeError"

text \<open>The loop \<^verbatim>\<open>for h in [...]: headers.pop(h, None)\<close>.\<close>

fun pop_each :: "json \<Rightarrow> pystr list \<Rightarrow> exc + json" where
  "pop_each headers [] = Inr headers"
| "pop_each headers (h # hs) =
     (case pop headers h of Inl e \<Rightarrow> Inl e | Inr headers' \<Rightarrow> pop_each headers' hs)"

definition stripped :: "pystr list" where
  "stripped = [py ''host'', py ''Host'', py ''content-length'', py ''Content-Length'']"

definition excluded :: "pystr set" where
  "excluded = {py ''content-encoding'', py ''transfer-encoding'', py ''connection''}"

text \<open>
  \<^verbatim>\<open>{k: v for k, v in resp.headers.items() if k.lower() not in excluded}\<close>
\<close>

definition response_headers :: "runtime \<Rightarrow> (pystr \<times> pystr) list \<Rightarrow> (pystr \<times> pystr) list" where
  "response_headers rt hs = filter (\<lambda>kv. str_lower rt (fst kv) \<notin> excluded) hs"

text \<open>
  What the handler returns: \<^verbatim>\<open>jsonify(obj), status\<close> or
  \<^verbatim>\<open>Response(content, status=..., headers=...)\<close>.
\<close>

datatype flask_response =
    Jsonify json int
  | Response bytes int "(pystr \<times> pystr) list"

text \<open>What the handler does besides returning: the outbound call and the console line.\<close>

datatype effect = Outbound outbound | Print pystr

definition error_object :: "pystr \<Rightarrow> json" where
  "error_object msg = JObj [(py ''error'', JStr msg)]"

text \<open>
  \<^verbatim>\<open>kwargs\<close> (lines 119-122) with the two positional arguments of line 124.
\<close>

definition outbound_call :: "pystr \<Rightarrow> json \<Rightarrow> json \<Rightarrow> json \<Rightarrow> outbound" where
  "outbound_call method target_url headers body =
     \<lparr> req_method = method, req_url = target_url, kw_headers = headers, kw_timeout = 120,
       kw_json = (if method \<noteq> py ''GET'' \<and> body \<noteq> JNull then Some body else None) \<rparr>"

text \<open>
  \<^verbatim>\<open>print(line)\<close> writes the line when the console can encode each of its
  characters, and raises \<^verbatim>\<open>UnicodeEncodeError\<close> otherwise.
\<close>

definition printable :: "runtime \<Rightarrow> pystr \<Rightarrow> bool" where
  "printable rt line = list_all (\<lambda>c. c < 128 \<or> stdout_encodes rt c) line"

text \<open>The line that line 136 prints for an exception with message \<open>msg\<close>.\<close>

definition error_line :: "pystr \<Rightarrow> pystr" where
  "error_line msg = py ''[ERROR] Proxy Error: '' @ msg"

text \<open>
  The \<^verbatim>\<open>try\<close> block (lines 118-134) with the handler of
  \<^verbatim>\<open>except Exception\<close> (lines 135-137). The \<^verbatim>\<open>print\<close> of line 136 runs inside the
  handler, before the \<^verbatim>\<open>return\<close>: an exception it raises leaves \<open>api_proxy\<close>.
\<close>

definition relay ::
  "runtime \<Rightarrow> pystr \<Rightarrow> json \<Rightarrow> json \<Rightarrow> json \<Rightarrow> effect list \<times> (exc + flask_response)" where
  "relay rt method target_url headers body =
     (let call = outbound_call method target_url headers body in
      case requests_request rt call of
        Responded resp \<Rightarrow>
          ([Outbound call],
           Inr (Response (content resp) (status_code resp)
                  (response_headers rt (resp_headers resp))))
      | Raised msg \<Rightarrow>
          if printable rt (error_line msg)
          then ([Outbound call, Print (error_line msg)], Inr (Jsonify (error_object msg) 500))
          else ([Outbound call], Inl UnicodeEncodeError))"

text \<open>
  Sequencing of the lines outside the \<^verbatim>\<open>try\<close> block: an exception raised
  there leaves the handler (\<open>Inl\<close>) before any effect has happened.
\<close>

definition raising ::
  "exc + 'a \<Rightarrow> ('a \<Rightarrow> effect list \<times> (exc + flask_response)) \<Rightarrow> effect list \<times> (exc + flask_response)" where
  "raising x f = (case x of Inl e \<Rightarrow> ([], Inl e) | Inr v \<Rightarrow> f v)"

text \<open>The handler, line by line (lines 105-137).\<close>

definition api_proxy :: "runtime \<Rightarrow> inbound \<Rightarrow> effect list \<times> (exc + flask_response)" where
  "api_proxy rt request =
     raising (payload request) (\<lambda>data.
      raising (get data (py ''targetUrl'')) (\<lambda>target_url.
      raising (get data (py ''method'')) (\<lambda>m.
      raising (upper rt (py_or m (JStr (py ''POST'')))) (\<lambda>method.
      raising (get data (py ''headers'')) (\<lambda>h.
      raising (get data (py ''body'')) (\<lambda>body.
        if \<not> truthy target_url
        then ([], Inr (Jsonify (error_object (py ''targetUrl is required'')) 400))
        else
          raising (pop_each (py_or h (JObj [])) stripped) (\<lambda>headers.
            relay rt method target_url headers body)))))))"

subsection \<open>Vocabulary of the properties\<close>

text \<open>The type tests the properties speak of, and the outbound calls among the effects.\<close>

fun is_str :: "json \<Rightarrow> bool" where
  "is_str (JStr s) = True"
| "is_str _ = False"

fun is_dict :: "json \<Rightarrow> bool" where
  "is_dict (JObj d) = True"
| "is_dict _ = False"

fun calls :: "effect list \<Rightarrow> outbound list" where
  "calls [] = []"
| "calls (Outbound c # es) = c # calls es"
| "calls (Print line # es) = calls es"

text \<open>
  Two names are equal without regard to case when their lower-case forms are equal.
  \<open>framing_header\<close> says that a name is one of the three names the relayed response
  must not carry.
\<close>

definition caseless_eq :: "runtime \<Rightarrow> pystr \<Rightarrow> pystr \<Rightarrow> bool" where
  "caseless_eq rt a b = (str_lower rt a = str_lower rt b)"

definition framing_header :: "runtime \<Rightarrow> pystr \<Rightarrow> bool" where
  "framing_header rt k =
     (caseless_eq rt k (py ''content-encoding'') \<or>
      caseless_eq rt k (py ''transfer-encoding'') \<or>
      caseless_eq rt k (py ''connection''))"

text \<open>
  A payload (after the fallback to the empty object) on which no line outside the
  \<^verbatim>\<open>try\<close> block raises: an object whose method is false or a string, and whose
  headers, when a target is present, are false or an object.
\<close>

definition well_shaped :: "json \<Rightarrow> bool" where
  "well_shaped data =
     (case data of
        JObj d \<Rightarrow>
          (\<not> truthy (dict_get d (py ''method'')) \<or> is_str (dict_get d (py ''method''))) \<and>
          (truthy (dict_get d (py ''targetUrl'')) \<longrightarrow>
             \<not> truthy (dict_get d (py ''headers'')) \<or> is_dict (dict_get d (py ''headers'')))
      | _ \<Rightarrow> False)"

subsection \<open>Example environments\<close>

text \<open>
  A target that answers every call with one reply, and one on which every call fails;
  the console encodes UTF-8, that is every code point but the surrogates.
  The reply is the one of the scenario \<^verbatim>\<open>404 {"msg":"nf"}\<close> with
  \<^verbatim>\<open>Content-Encoding: gzip\<close>.
\<close>

definition example_url :: json where
  "example_url = JStr (py ''http://example.test/x'')"

definition example_reply :: upstream where
  "example_reply =
     \<lparr> status_code = 404,
       content = [123, 34, 109, 115, 103, 34, 58, 34, 110, 102, 34, 125],
       resp_headers = [(py ''Content-Encoding'', py ''gzip''), (py ''X-Trace'', py ''t1'')] \<rparr>"

definition answering :: "upstream \<Rightarrow> runtime" where
  "answering resp =
     \<lparr> upper_unicode = (\<lambda>s. s), lower_unicode = (\<lambda>s. s),
       requests_request = (\<lambda>call. Responded resp),
       stdout_encodes = (\<lambda>c. c < 55296 \<or> 57343 < c) \<rparr>"

definition failing :: "pystr \<Rightarrow> runtime" where
  "failing msg =
     \<lparr> upper_unicode = (\<lambda>s. s), lower_unicode = (\<lambda>s. s),
       requests_request = (\<lambda>call. Raised msg),
       stdout_encodes = (\<lambda>c. c < 55296 \<or> 57343 < c) \<rparr>"

text \<open>
  The payload \<^verbatim>\<open>{targetUrl: "http://example.test/x", method: "get", body: {"a":1}}\<close>
  and the call the handler makes for it; the same payload without a method, and its call.
\<close>

definition scenario :: inbound where
  "scenario = Json (JObj [(py ''targetUrl'', example_url), (py ''method'', JStr (py ''get'')),
                          (py ''body'', JObj [(py ''a'', JInt 1)])])"

definition scenario_call :: outbound where
  "scenario_call = \<lparr> req_method = py ''GET'', req_url = example_url, kw_headers = JObj [],
                      kw_timeout = 120, kw_json = None \<rparr>"

definition post_scenario :: inbound where
  "post_scenario = Json (JObj [(py ''targetUrl'', example_url),
                               (py ''body'', JObj [(py ''a'', JInt 1)])])"

definition post_scenario_call :: outbound where
  "post_scenario_call = \<lparr> req_method = py ''POST'', req_url = example_url, kw_headers = JObj [],
                           kw_timeout = 120, kw_json = Some (JObj [(py ''a'', JInt 1)]) \<rparr>"

text \<open>
  A payload whose method and headers are null, and one whose method is the empty string.
\<close>

definition null_fields :: inbound where
  "null_fields = Json (JObj [(py ''targetUrl'', example_url), (py ''method'', JNull),
                             (py ''headers'', JNull)])"

definition empty_method :: inbound where
  "empty_method = Json (JObj [(py ''targetUrl'', example_url), (py ''method'', JStr [])])"

lemmas run =
  api_proxy_def raising_def payload_def py_or_def dict_get_def relay_def outbound_call_def
  printable_def error_line_def
  stripped_def excluded_def response_headers_def error_object_def
  str_upper_def str_lower_def is_ascii_def ascii_upper_def ascii_lower_def py_def
  answering_def failing_def example_url_def example_reply_def Let_def

section \<open>Properties\<close>

subsection \<open>Auxiliary facts\<close>

lemma upper_POST: "str_upper rt (py ''POST'') = py ''POST''"
  by (simp add: str_upper_def is_ascii_def ascii_upper_def py_def)

lemma data_cases:
  "(\<exists>d. payload request = Inr (JObj d)) \<or> (\<exists>e. api_proxy rt request = ([], Inl e))"
proof (cases "payload request")
  case (Inl e)
  then show ?thesis by (simp add: api_proxy_def raising_def)
next
  case (Inr data)
  then show ?thesis by (cases data) (simp_all add: api_proxy_def raising_def)
qed

lemma api_proxy_obj:
  assumes "payload request = Inr (JObj d)"
  shows "api_proxy rt request =
     raising (upper rt (py_or (dict_get d (py ''method'')) (JStr (py ''POST'')))) (\<lambda>meth.
       if \<not> truthy (dict_get d (py ''targetUrl''))
       then ([], Inr (Jsonify (error_object (py ''targetUrl is required'')) 400))
       else raising (pop_each (py_or (dict_get d (py ''headers'')) (JObj [])) stripped) (\<lambda>headers.
              relay rt meth (dict_get d (py ''targetUrl'')) headers (dict_get d (py ''body''))))"
  using assms by (simp add: api_proxy_def raising_def Let_def split: sum.split)

lemma upper_or:
  "upper rt (py_or m (JStr (py ''POST''))) =
     (if \<not> truthy m then Inr (py ''POST'')
      else case m of JStr s \<Rightarrow> Inr (str_upper rt s) | _ \<Rightarrow> Inl AttributeError)"
  by (cases m) (simp_all add: py_or_def upper_POST del: truthy.simps(4,5,6))

lemma pop_each_obj:
  "pop_each (JObj d) hs = Inr (JObj (filter (\<lambda>kv. fst kv \<notin> set hs) d))"
proof (induction hs arbitrary: d)
  case Nil
  show ?case by simp
next
  case (Cons h hs)
  show ?case by (simp add: Cons.IH conj_commute)
qed

lemma pop_each_or:
  "pop_each (py_or h (JObj [])) stripped =
     (if \<not> truthy h then Inr (JObj [])
      else case h of JObj hs \<Rightarrow> Inr (JObj (filter (\<lambda>kv. fst kv \<notin> set stripped) hs))
           | JList xs \<Rightarrow> Inl TypeError | _ \<Rightarrow> Inl AttributeError)"
proof (cases "truthy h")
  case False
  then show ?thesis by (simp add: py_or_def pop_each_obj)
next
  case True
  then show ?thesis
    by (cases h) (simp_all add: py_or_def pop_each_obj stripped_def)
qed

lemma relay_calls:
  "calls (fst (relay rt meth t headers body)) = [outbound_call meth t headers body]"
  by (simp add: relay_def Let_def split: outcome.split)

lemma relay_set:
  "Outbound call \<in> set (fst (relay rt meth t headers body)) \<longleftrightarrow> call = outbound_call meth t headers body"
  by (auto simp add: relay_def Let_def split: outcome.split)

lemma relay_result:
  "snd (relay rt meth t headers body) =
     (case requests_request rt (outbound_call meth t headers body) of
        Responded resp \<Rightarrow> Inr (Response (content resp) (status_code resp) (response_headers rt (resp_headers resp)))
      | Raised msg \<Rightarrow>
          if printable rt (error_line msg) then Inr (Jsonify (error_object msg) 500)
          else Inl UnicodeEncodeError)"
  by (simp add: relay_def Let_def split: outcome.split)

lemma call_inversion:
  assumes "Outbound call \<in> set (fst (api_proxy rt request))"
  shows "\<exists>d meth headers.
           payload request = Inr (JObj d) \<and>
           truthy (dict_get d (py ''targetUrl'')) \<and>
           upper rt (py_or (dict_get d (py ''method'')) (JStr (py ''POST''))) = Inr meth \<and>
           pop_each (py_or (dict_get d (py ''headers'')) (JObj [])) stripped = Inr headers \<and>
           call = outbound_call meth (dict_get d (py ''targetUrl'')) headers (dict_get d (py ''body'')) \<and>
           api_proxy rt request = relay rt meth (dict_get d (py ''targetUrl'')) headers (dict_get d (py ''body''))"
proof -
  from data_cases [of request rt] assms obtain d
    where d: "payload request = Inr (JObj d)" by auto
  let ?u = "upper rt (py_or (dict_get d (py ''method'')) (JStr (py ''POST'')))"
  let ?p = "pop_each (py_or (dict_get d (py ''headers'')) (JObj [])) stripped"
  let ?t = "dict_get d (py ''targetUrl'')"
  from assms obtain meth where m: "?u = Inr meth"
    by (cases ?u) (simp_all add: api_proxy_obj [OF d] raising_def)
  from assms m have t: "truthy ?t"
    by (cases "truthy ?t") (simp_all add: api_proxy_obj [OF d] raising_def)
  from assms m t obtain headers where h: "?p = Inr headers"
    by (cases ?p) (simp_all add: api_proxy_obj [OF d] raising_def)
  have run: "api_proxy rt request = relay rt meth ?t headers (dict_get d (py ''body''))"
    using m t h by (simp add: api_proxy_obj [OF d] raising_def)
  with assms have "call = outbound_call meth ?t headers (dict_get d (py ''body''))"
    by (simp add: relay_set)
  with d m t h run show ?thesis by blast
qed

lemma validation_response:
  assumes "payload request = Inr (JObj d)"
    and "\<not> truthy (dict_get d (py ''targetUrl''))"
    and "\<not> truthy (dict_get d (py ''method'')) \<or> is_str (dict_get d (py ''method''))"
  shows "api_proxy rt request =
           ([], Inr (Jsonify (error_object (py ''targetUrl is required'')) 400))"
proof (cases "dict_get d (py ''method'')")
  case (JStr s)
  with assms(2) show ?thesis
    by (simp add: api_proxy_obj [OF assms(1)] upper_or raising_def)
qed (use assms in \<open>simp_all add: api_proxy_obj [OF assms(1)] upper_or raising_def\<close>)

lemma no_call_without_target:
  assumes "payload request = Inr (JObj d)"
    and "\<not> truthy (dict_get d (py ''targetUrl''))"
  shows "calls (fst (api_proxy rt request)) = []"
  using assms(2)
  by (cases "upper rt (py_or (dict_get d (py ''method'')) (JStr (py ''POST'')))")
     (simp_all add: api_proxy_obj [OF assms(1)] raising_def)



lemma upper_succeeds:
  "(\<exists>meth. upper rt (py_or m (JStr (py ''POST''))) = Inr meth) \<longleftrightarrow> \<not> truthy m \<or> is_str m"
  by (cases m) (simp_all add: upper_or del: truthy.simps)

lemma pop_each_succeeds:
  "(\<exists>headers. pop_each (py_or h (JObj [])) stripped = Inr headers) \<longleftrightarrow> \<not> truthy h \<or> is_dict h"
  by (cases h) (simp_all add: pop_each_or del: truthy.simps)

lemma one_call:
  assumes "payload request = Inr (JObj d)"
    and "truthy (dict_get d (py ''targetUrl''))"
    and "upper rt (py_or (dict_get d (py ''method'')) (JStr (py ''POST''))) = Inr meth"
    and "pop_each (py_or (dict_get d (py ''headers'')) (JObj [])) stripped = Inr headers"
  shows "calls (fst (api_proxy rt request)) =
           [outbound_call meth (dict_get d (py ''targetUrl'')) headers (dict_get d (py ''body''))]"
  using assms(2-4) by (simp add: api_proxy_obj [OF assms(1)] raising_def relay_calls)

lemma scenario_payload:
  "payload scenario =
     Inr (JObj [(py ''targetUrl'', example_url), (py ''method'', JStr (py ''get'')),
                (py ''body'', JObj [(py ''a'', JInt 1)])])"
  "payload post_scenario =
     Inr (JObj [(py ''targetUrl'', example_url), (py ''body'', JObj [(py ''a'', JInt 1)])])"
  by (simp_all add: scenario_def post_scenario_def payload_def py_or_def)

lemma scenario_fields:
  "dict_get [(py ''targetUrl'', example_url), (py ''method'', JStr (py ''get'')),
             (py ''body'', JObj [(py ''a'', JInt 1)])] (py ''targetUrl'') = example_url"
  "dict_get [(py ''targetUrl'', example_url), (py ''method'', JStr (py ''get'')),
             (py ''body'', JObj [(py ''a'', JInt 1)])] (py ''method'') = JStr (py ''get'')"
  "dict_get [(py ''targetUrl'', example_url), (py ''method'', JStr (py ''get'')),
             (py ''body'', JObj [(py ''a'', JInt 1)])] (py ''headers'') = JNull"
  "dict_get [(py ''targetUrl'', example_url), (py ''method'', JStr (py ''get'')),
             (py ''body'', JObj [(py ''a'', JInt 1)])] (py ''body'') = JObj [(py ''a'', JInt 1)]"
  "dict_get [(py ''targetUrl'', example_url), (py ''body'', JObj [(py ''a'', JInt 1)])]
     (py ''targetUrl'') = example_url"
  "dict_get [(py ''targetUrl'', example_url), (py ''body'', JObj [(py ''a'', JInt 1)])]
     (py ''method'') = JNull"
  "dict_get [(py ''targetUrl'', example_url), (py ''body'', JObj [(py ''a'', JInt 1)])]
     (py ''headers'') = JNull"
  "dict_get [(py ''targetUrl'', example_url), (py ''body'', JObj [(py ''a'', JInt 1)])]
     (py ''body'') = JObj [(py ''a'', JInt 1)]"
  "map_of [(py ''targetUrl'', example_url), (py ''body'', JObj [(py ''a'', JInt 1)])]
     (py ''method'') = None"
  by (simp_all add: dict_get_def py_def)

lemma calls_set: "c \<in> set (calls es) \<longleftrightarrow> Outbound c \<in> set es"
  by (induction es rule: calls.induct) auto

lemma ascii_printable: "is_ascii msg \<Longrightarrow> printable rt (error_line msg)"
  by (simp add: printable_def error_line_def is_ascii_def py_def list_all_iff)

lemma relay_returns:
  "(\<exists>response. snd (relay rt meth t headers body) = Inr response) \<longleftrightarrow>
     (\<forall>msg. requests_request rt (outbound_call meth t headers body) = Raised msg \<longrightarrow>
        printable rt (error_line msg))"
  by (cases "requests_request rt (outbound_call meth t headers body)") (simp_all add: relay_result)

lemma relay_answers:
  "(\<exists>response. snd (relay rt meth t headers body) = Inr response) \<or>
   snd (relay rt meth t headers body) = Inl UnicodeEncodeError"
  by (cases "requests_request rt (outbound_call meth t headers body)") (simp_all add: relay_result)

lemma relay_not_400: "snd (relay rt meth t headers body) \<noteq> Inr (Jsonify j 400)"
  by (cases "requests_request rt (outbound_call meth t headers body)") (simp_all add: relay_result)

lemma returns_iff:
  assumes "payload request = Inr (JObj d)"
  shows "(\<exists>response. snd (api_proxy rt request) = Inr response) \<longleftrightarrow>
           well_shaped (JObj d) \<and>
           (\<forall>call msg. Outbound call \<in> set (fst (api_proxy rt request)) \<and>
               requests_request rt call = Raised msg \<longrightarrow> printable rt (error_line msg))"
proof (cases "upper rt (py_or (dict_get d (py ''method'')) (JStr (py ''POST'')))")
  case (Inl e)
  with upper_succeeds [of rt "dict_get d (py ''method'')"]
  have "\<not> (\<not> truthy (dict_get d (py ''method'')) \<or> is_str (dict_get d (py ''method'')))"
    by simp
  with Inl show ?thesis
    by (simp add: api_proxy_obj [OF assms] raising_def well_shaped_def)
next
  case (Inr meth)
  with upper_succeeds [of rt "dict_get d (py ''method'')"]
  have m: "\<not> truthy (dict_get d (py ''method'')) \<or> is_str (dict_get d (py ''method''))"
    by simp
  show ?thesis
  proof (cases "truthy (dict_get d (py ''targetUrl''))")
    case False
    with Inr m show ?thesis
      by (simp add: api_proxy_obj [OF assms] raising_def well_shaped_def)
  next
    case True
    show ?thesis
    proof (cases "pop_each (py_or (dict_get d (py ''headers'')) (JObj [])) stripped")
      case (Inl e)
      with pop_each_succeeds [of "dict_get d (py ''headers'')"]
      have "\<not> (\<not> truthy (dict_get d (py ''headers'')) \<or> is_dict (dict_get d (py ''headers'')))"
        by simp
      with Inl Inr True show ?thesis
        by (simp add: api_proxy_obj [OF assms] raising_def well_shaped_def)
    next
      case (Inr headers)
      with pop_each_succeeds [of "dict_get d (py ''headers'')"]
      have h: "\<not> truthy (dict_get d (py ''headers'')) \<or> is_dict (dict_get d (py ''headers''))"
        by simp
      have run: "api_proxy rt request =
          relay rt meth (dict_get d (py ''targetUrl'')) headers (dict_get d (py ''body''))"
        using Inr \<open>upper rt _ = Inr meth\<close> True
        by (simp add: api_proxy_obj [OF assms] raising_def)
      have w: "well_shaped (JObj d)"
        using m h by (simp add: well_shaped_def)
      show ?thesis
        by (simp add: run w relay_returns relay_set)
    qed
  qed
qed

lemma failure_result:
  assumes "Outbound call \<in> set (fst (api_proxy rt request))"
    and "requests_request rt call = Raised msg"
  shows "snd (api_proxy rt request) =
           (if printable rt (error_line msg) then Inr (Jsonify (error_object msg) 500)
            else Inl UnicodeEncodeError)"
proof -
  from call_inversion [OF assms(1)] obtain d meth headers where
    c: "call = outbound_call meth (dict_get d (py ''targetUrl'')) headers (dict_get d (py ''body''))"
    and run: "api_proxy rt request =
      relay rt meth (dict_get d (py ''targetUrl'')) headers (dict_get d (py ''body''))"
    by blast
  from assms(2) c show ?thesis
    by (simp add: run relay_result)
qed

lemma well_shaped_call:
  assumes "payload request = Inr (JObj d)"
    and "well_shaped (JObj d)"
    and "truthy (dict_get d (py ''targetUrl''))"
  shows "\<exists>call. calls (fst (api_proxy rt request)) = [call]"
proof -
  from assms(2) have m: "\<not> truthy (dict_get d (py ''method'')) \<or> is_str (dict_get d (py ''method''))"
    by (simp add: well_shaped_def)
  from assms(2,3) have h: "\<not> truthy (dict_get d (py ''headers'')) \<or> is_dict (dict_get d (py ''headers''))"
    by (simp add: well_shaped_def)
  from m upper_succeeds [of rt "dict_get d (py ''method'')"] obtain meth where
    m': "upper rt (py_or (dict_get d (py ''method'')) (JStr (py ''POST''))) = Inr meth" by blast
  from h pop_each_succeeds [of "dict_get d (py ''headers'')"] obtain headers where
    h': "pop_each (py_or (dict_get d (py ''headers'')) (JObj [])) stripped = Inr headers"
    by blast
  from one_call [OF assms(1,3) m' h'] show ?thesis by blast
qed

lemma returns_iff_any:
  "(\<exists>response. snd (api_proxy rt request) = Inr response) \<longleftrightarrow>
     (\<exists>data. payload request = Inr data \<and> well_shaped data) \<and>
     (\<forall>call msg. Outbound call \<in> set (fst (api_proxy rt request)) \<and>
         requests_request rt call = Raised msg \<longrightarrow> printable rt (error_line msg))"
proof (cases "payload request")
  case (Inl e)
  then show ?thesis by (simp add: api_proxy_def raising_def)
next
  case (Inr data)
  show ?thesis
  proof (cases "is_dict data")
    case True
    then obtain d where d: "data = JObj d" by (cases data) simp_all
    from returns_iff [of request d rt] Inr d show ?thesis by simp
  next
    case False
    then have "\<not> well_shaped data" by (cases data) (simp_all add: well_shaped_def)
    moreover from False Inr have "api_proxy rt request = ([], Inl AttributeError)"
      by (cases data) (simp_all add: api_proxy_def raising_def)
    ultimately show ?thesis using Inr by simp
  qed
qed

lemma failing_call: "requests_request (failing msg) call = Raised msg"
  by (simp add: failing_def)

lemma scenario_shape:
  "well_shaped (JObj [(py ''targetUrl'', example_url), (py ''method'', JStr (py ''get'')),
                      (py ''body'', JObj [(py ''a'', JInt 1)])])"
  by (simp add: well_shaped_def scenario_fields)

lemma falsy_payload:
  assumes "get_json request = Inr v" and "\<not> truthy v"
  shows "api_proxy rt request =
           ([], Inr (Jsonify (error_object (py ''targetUrl is required'')) 400))"
proof -
  from assms have d: "payload request = Inr (JObj [])"
    by (simp add: payload_def py_or_def)
  show ?thesis
    by (rule validation_response [OF d]) (simp_all add: dict_get_def)
qed

lemma only_validation_is_400:
  assumes "snd (api_proxy rt request) = Inr (Jsonify j 400)"
  shows "j = error_object (py ''targetUrl is required'') \<and>
         (\<exists>d. payload request = Inr (JObj d) \<and> \<not> truthy (dict_get d (py ''targetUrl'')))"
proof -
  from data_cases [of request rt] assms obtain d
    where d: "payload request = Inr (JObj d)" by auto
  let ?u = "upper rt (py_or (dict_get d (py ''method'')) (JStr (py ''POST'')))"
  let ?p = "pop_each (py_or (dict_get d (py ''headers'')) (JObj [])) stripped"
  from assms obtain meth where m: "?u = Inr meth"
    by (cases ?u) (simp_all add: api_proxy_obj [OF d] raising_def)
  have t: "\<not> truthy (dict_get d (py ''targetUrl''))"
  proof
    assume t: "truthy (dict_get d (py ''targetUrl''))"
    with assms m obtain headers where h: "?p = Inr headers"
      by (cases ?p) (simp_all add: api_proxy_obj [OF d] raising_def)
    from assms m t h show False
      by (simp add: api_proxy_obj [OF d] raising_def relay_not_400)
  qed
  with assms m have "j = error_object (py ''targetUrl is required'')"
    by (simp add: api_proxy_obj [OF d] raising_def)
  with d t show ?thesis by blast
qed

lemma decoder_raises:
  assumes "get_json request = Inl e"
  shows "api_proxy rt request = ([], Inl e)"
  using assms by (simp add: api_proxy_def payload_def raising_def)


lemma answers_or_print_fails:
  assumes "payload request = Inr (JObj d)"
    and "truthy (dict_get d (py ''targetUrl''))"
    and "upper rt (py_or (dict_get d (py ''method'')) (JStr (py ''POST''))) = Inr meth"
    and "pop_each (py_or (dict_get d (py ''headers'')) (JObj [])) stripped = Inr headers"
  shows "(\<exists>response. snd (api_proxy rt request) = Inr response) \<or>
         snd (api_proxy rt request) = Inl UnicodeEncodeError"
  using assms(2-4) relay_answers [of rt meth "dict_get d (py ''targetUrl'')" headers "dict_get d (py ''body'')"]
  by (simp add: api_proxy_obj [OF assms(1)] raising_def)

subsection \<open>Validation\<close>

text \<open>
  Claim C1, as amended. When the payload is an object (or falls back to the empty one) and
  its \<^verbatim>\<open>targetUrl\<close> is missing, null, empty or otherwise false, the handler makes no
  outbound call; and when, besides, its method is absent, false or a string, the handler
  returns exactly \<^verbatim>\<open>{error: "targetUrl is required"}\<close> with status 400.
\<close>

theorem C1_missing_target_url:
  assumes "payload request = Inr (JObj d)"
    and "\<not> truthy (dict_get d (py ''targetUrl''))"
  shows "calls (fst (api_proxy rt request)) = [] \<and>
         (\<not> truthy (dict_get d (py ''method'')) \<or> is_str (dict_get d (py ''method'')) \<longrightarrow>
            api_proxy rt request =
              ([], Inr (Jsonify (error_object (py ''targetUrl is required'')) 400)))"
  using no_call_without_target [OF assms] validation_response [OF assms] by blast

text \<open>The payloads \<^verbatim>\<open>{}\<close>, a null target and an empty target, each refused.\<close>

theorem C1_missing_target_url_witness:
  "api_proxy (answering example_reply) (Json (JObj [])) =
     ([], Inr (Jsonify (error_object (py ''targetUrl is required'')) 400)) \<and>
   api_proxy (answering example_reply) (Json (JObj [(py ''targetUrl'', JNull)])) =
     ([], Inr (Jsonify (error_object (py ''targetUrl is required'')) 400)) \<and>
   api_proxy (answering example_reply)
       (Json (JObj [(py ''targetUrl'', JStr []), (py ''method'', JStr (py ''get''))])) =
     ([], Inr (Jsonify (error_object (py ''targetUrl is required'')) 400))"
proof -
  let ?rt = "answering example_reply"
  have a: "payload (Json (JObj [])) = Inr (JObj [])"
    by (simp add: payload_def py_or_def)
  have b: "payload (Json (JObj [(py ''targetUrl'', JNull)])) =
             Inr (JObj [(py ''targetUrl'', JNull)])"
    by (simp add: payload_def py_or_def)
  have c: "payload (Json (JObj [(py ''targetUrl'', JStr []), (py ''method'', JStr (py ''get''))])) =
             Inr (JObj [(py ''targetUrl'', JStr []), (py ''method'', JStr (py ''get''))])"
    by (simp add: payload_def py_or_def)
  show ?thesis
    using C1_missing_target_url [OF a, of ?rt] C1_missing_target_url [OF b, of ?rt]
      C1_missing_target_url [OF c, of ?rt]
    by (simp add: dict_get_def py_def)
qed

text \<open>
  Claim C1 as stated fails: the payload \<^verbatim>\<open>{"method": 5}\<close> has no target, and
  line 107 raises before the check of line 111 is reached.
\<close>

theorem C1_counterexample:
  "map_of [(py ''method'', JInt 5)] (py ''targetUrl'') = None \<and>
   api_proxy (answering example_reply) (Json (JObj [(py ''method'', JInt 5)])) =
     ([], Inl AttributeError)"
  by (simp add: run)

subsection \<open>Headers\<close>

text \<open>
  Claim C2, at the payload whose headers are \<^verbatim>\<open>{"Host": "a.test", "HOST": "b.test"}\<close>:
  the name \<^verbatim>\<open>HOST\<close> equals \<^verbatim>\<open>host\<close> without regard to case, and the call
  is made with it. Lines 115-116 remove the four spellings \<^verbatim>\<open>host\<close>, \<^verbatim>\<open>Host\<close>,
  \<^verbatim>\<open>content-length\<close> and \<^verbatim>\<open>Content-Length\<close> only.
\<close>

theorem C2_uppercase_host_is_forwarded:
  "caseless_eq (answering example_reply) (py ''HOST'') (py ''host'') \<and>
   map kw_headers (calls (fst (api_proxy (answering example_reply)
     (Json (JObj [(py ''targetUrl'', example_url),
                  (py ''headers'', JObj [(py ''Host'', JStr (py ''a.test'')),
                                         (py ''HOST'', JStr (py ''b.test''))])]))))) =
     [JObj [(py ''HOST'', JStr (py ''b.test''))]]"
  by (simp add: run caseless_eq_def)

text \<open>
  Claim C3. The filter of lines 127-130 keeps exactly the headers whose name is none of
  \<^verbatim>\<open>content-encoding\<close>, \<^verbatim>\<open>transfer-encoding\<close>, \<^verbatim>\<open>connection\<close> without
  regard to case, each with its name and value as they were and in their order, and
  filtering twice is filtering once.
\<close>

theorem C3_response_filter:
  "response_headers rt hs = filter (\<lambda>kv. \<not> framing_header rt (fst kv)) hs \<and>
   ((k, v) \<in> set (response_headers rt hs) \<longleftrightarrow> (k, v) \<in> set hs \<and> \<not> framing_header rt k) \<and>
   response_headers rt (response_headers rt hs) = response_headers rt hs"
proof -
  have low: "str_lower rt (py ''content-encoding'') = py ''content-encoding''"
    "str_lower rt (py ''transfer-encoding'') = py ''transfer-encoding''"
    "str_lower rt (py ''connection'') = py ''connection''"
    by (simp_all add: str_lower_def is_ascii_def ascii_lower_def py_def)
  have iff: "framing_header rt n \<longleftrightarrow> str_lower rt n \<in> excluded" for n
    by (auto simp add: framing_header_def caseless_eq_def low excluded_def)
  show ?thesis
    by (auto simp add: response_headers_def iff)
qed

text \<open>
  The three spellings of \<^verbatim>\<open>Content-Encoding\<close> are removed, with the two other names;
  the remaining headers pass.
\<close>

theorem C3_response_filter_witness:
  "response_headers (answering example_reply)
     [(py ''Content-Encoding'', py ''gzip''), (py ''content-encoding'', py ''br''),
      (py ''CONTENT-ENCODING'', py ''gzip''), (py ''X-Trace'', py ''t1''),
      (py ''Transfer-Encoding'', py ''chunked''), (py ''Connection'', py ''close''),
      (py ''Content-Type'', py ''text/plain'')] =
   [(py ''X-Trace'', py ''t1''), (py ''Content-Type'', py ''text/plain'')]"
proof -
  have "framing_header (answering example_reply) (py ''Content-Encoding'')"
    "framing_header (answering example_reply) (py ''content-encoding'')"
    "framing_header (answering example_reply) (py ''CONTENT-ENCODING'')"
    "framing_header (answering example_reply) (py ''Transfer-Encoding'')"
    "framing_header (answering example_reply) (py ''Connection'')"
    "\<not> framing_header (answering example_reply) (py ''X-Trace'')"
    "\<not> framing_header (answering example_reply) (py ''Content-Type'')"
    by (simp_all add: framing_header_def caseless_eq_def run)
  then show ?thesis
    using C3_response_filter [of "answering example_reply"] by simp
qed

subsection \<open>The relayed response\<close>



subsection \<open>Method and body\<close>




text \<open>
  Claim C6. For a payload with a target, whose method and headers do not raise, the
  handler makes exactly one outbound call; its method is the normalised method of the
  payload; when that method is \<^verbatim>\<open>GET\<close> the call has no \<^verbatim>\<open>json\<close> argument, whatever
  body the payload supplies; and the call has the argument exactly when its method is not
  \<^verbatim>\<open>GET\<close> and the body of the payload is not null, the argument then being that body.
\<close>

theorem C6_body_attached:
  assumes "payload request = Inr (JObj d)"
    and "truthy (dict_get d (py ''targetUrl''))"
    and "\<not> truthy (dict_get d (py ''method'')) \<or> is_str (dict_get d (py ''method''))"
    and "\<not> truthy (dict_get d (py ''headers'')) \<or> is_dict (dict_get d (py ''headers''))"
  shows "\<exists>call. calls (fst (api_proxy rt request)) = [call] \<and>
           upper rt (py_or (dict_get d (py ''method'')) (JStr (py ''POST''))) = Inr (req_method call) \<and>
           (req_method call = py ''GET'' \<longrightarrow> kw_json call = None) \<and>
           kw_json call =
             (if req_method call \<noteq> py ''GET'' \<and> dict_get d (py ''body'') \<noteq> JNull
              then Some (dict_get d (py ''body'')) else None)"
proof -
  from assms(3) upper_succeeds [of rt "dict_get d (py ''method'')"] obtain meth where
    m: "upper rt (py_or (dict_get d (py ''method'')) (JStr (py ''POST''))) = Inr meth" by blast
  from assms(4) pop_each_succeeds [of "dict_get d (py ''headers'')"] obtain headers where
    h: "pop_each (py_or (dict_get d (py ''headers'')) (JObj [])) stripped = Inr headers"
    by blast
  let ?call = "outbound_call meth (dict_get d (py ''targetUrl'')) headers (dict_get d (py ''body''))"
  have "calls (fst (api_proxy rt request)) = [?call]"
    by (rule one_call [OF assms(1,2) m h])
  moreover have "upper rt (py_or (dict_get d (py ''method'')) (JStr (py ''POST''))) = Inr (req_method ?call)"
    using m by (simp add: outbound_call_def)
  moreover have "req_method ?call = py ''GET'' \<longrightarrow> kw_json ?call = None"
    by (simp add: outbound_call_def)
  moreover have "kw_json ?call =
             (if req_method ?call \<noteq> py ''GET'' \<and> dict_get d (py ''body'') \<noteq> JNull
              then Some (dict_get d (py ''body'')) else None)"
    by (simp add: outbound_call_def)
  ultimately show ?thesis by blast
qed

text \<open>
  The call made for the scenario carries no body with \<^verbatim>\<open>GET\<close>; the call made for
  the same payload without a method carries its body with \<^verbatim>\<open>POST\<close>.
\<close>

theorem C6_body_attached_witness:
  "map kw_json (calls (fst (api_proxy (answering example_reply) scenario))) = [None] \<and>
   map kw_json (calls (fst (api_proxy (answering example_reply) post_scenario))) =
     [Some (JObj [(py ''a'', JInt 1)])]"
proof -
  let ?rt = "answering example_reply"
  have t: "truthy example_url" by (simp add: example_url_def py_def)
  have u: "upper ?rt (py_or (JStr (py ''get'')) (JStr (py ''POST''))) = Inr (py ''GET'')"
    "upper ?rt (py_or JNull (JStr (py ''POST''))) = Inr (py ''POST'')"
    by (simp_all add: py_or_def str_upper_def is_ascii_def ascii_upper_def py_def)
  have ne: "py ''POST'' \<noteq> py ''GET''" by (simp add: py_def)
  from C6_body_attached [OF scenario_payload(1), of ?rt, unfolded scenario_fields u] t
  obtain c1 where c1: "calls (fst (api_proxy ?rt scenario)) = [c1]"
    "py ''GET'' = req_method c1" "req_method c1 = py ''GET'' \<longrightarrow> kw_json c1 = None"
    by auto
  from C6_body_attached [OF scenario_payload(2), of ?rt, unfolded scenario_fields u] t
  obtain c2 where c2: "calls (fst (api_proxy ?rt post_scenario)) = [c2]"
    "py ''POST'' = req_method c2"
    "kw_json c2 = (if req_method c2 \<noteq> py ''GET'' \<and> JObj [(py ''a'', JInt 1)] \<noteq> JNull
                   then Some (JObj [(py ''a'', JInt 1)]) else None)"
    by auto
  from c1 have "map kw_json (calls (fst (api_proxy ?rt scenario))) = [None]" by simp
  moreover from c2 ne have "map kw_json (calls (fst (api_proxy ?rt post_scenario))) =
      [Some (JObj [(py ''a'', JInt 1)])]" by (simp add: c2(2) [symmetric])
  ultimately show ?thesis by simp
qed

subsection \<open>Failures\<close>

text \<open>
  Claim C7, as amended. Whenever the outbound call raises, the handler returns
  \<^verbatim>\<open>{error: msg}\<close> with status 500, \<open>msg\<close> being the message of the exception,
  provided the console can encode the line that line 136 prints; otherwise
  \<^verbatim>\<open>UnicodeEncodeError\<close> leaves the handler. The handler returns a response, rather
  than raising, exactly when the body decodes without an exception to a well-shaped payload
  and the line of a failed call can be printed. For a well-shaped payload with a target
  the call is made.
\<close>

theorem C7_structured_response:
  "(\<forall>call msg. Outbound call \<in> set (fst (api_proxy rt request)) \<and>
        requests_request rt call = Raised msg \<longrightarrow>
        snd (api_proxy rt request) =
          (if printable rt (error_line msg) then Inr (Jsonify (error_object msg) 500)
           else Inl UnicodeEncodeError)) \<and>
   ((\<exists>response. snd (api_proxy rt request) = Inr response) \<longleftrightarrow>
      (\<exists>data. payload request = Inr data \<and> well_shaped data) \<and>
      (\<forall>call msg. Outbound call \<in> set (fst (api_proxy rt request)) \<and>
          requests_request rt call = Raised msg \<longrightarrow> printable rt (error_line msg))) \<and>
   (\<forall>d. payload request = Inr (JObj d) \<and> well_shaped (JObj d) \<and>
        truthy (dict_get d (py ''targetUrl'')) \<longrightarrow>
        (\<exists>call. calls (fst (api_proxy rt request)) = [call]))"
proof (intro conjI allI impI)
  fix call msg
  assume "Outbound call \<in> set (fst (api_proxy rt request)) \<and> requests_request rt call = Raised msg"
  then show "snd (api_proxy rt request) =
          (if printable rt (error_line msg) then Inr (Jsonify (error_object msg) 500)
           else Inl UnicodeEncodeError)"
    using failure_result by blast
next
  show "(\<exists>response. snd (api_proxy rt request) = Inr response) \<longleftrightarrow>
      (\<exists>data. payload request = Inr data \<and> well_shaped data) \<and>
      (\<forall>call msg. Outbound call \<in> set (fst (api_proxy rt request)) \<and>
          requests_request rt call = Raised msg \<longrightarrow> printable rt (error_line msg))"
    by (rule returns_iff_any)
next
  fix d
  assume "payload request = Inr (JObj d) \<and> well_shaped (JObj d) \<and>
        truthy (dict_get d (py ''targetUrl''))"
  then show "\<exists>call. calls (fst (api_proxy rt request)) = [call]"
    using well_shaped_call by blast
qed

text \<open>
  The scenario against a target that refuses the connection.
\<close>

theorem C7_structured_response_witness:
  "snd (api_proxy (failing (py ''Connection refused'')) scenario) =
     Inr (Jsonify (JObj [(py ''error'', JStr (py ''Connection refused''))]) 500)"
proof -
  let ?rt = "failing (py ''Connection refused'')"
  note inst = C7_structured_response [of ?rt scenario]
  have t: "truthy example_url" by (simp add: example_url_def py_def)
  from inst scenario_payload(1) scenario_shape t obtain call where
    "calls (fst (api_proxy ?rt scenario)) = [call]"
    by (auto simp add: scenario_fields)
  then have "call \<in> set (calls (fst (api_proxy ?rt scenario)))" by simp
  then have a: "Outbound call \<in> set (fst (api_proxy ?rt scenario))"
    by (simp add: calls_set)
  have b: "requests_request ?rt call = Raised (py ''Connection refused'')"
    by (rule failing_call)
  have p: "printable ?rt (error_line (py ''Connection refused''))"
    by (rule ascii_printable) (simp add: is_ascii_def py_def)
  from inst a b have "snd (api_proxy ?rt scenario) =
      (if printable ?rt (error_line (py ''Connection refused''))
       then Inr (Jsonify (error_object (py ''Connection refused'')) 500)
       else Inl UnicodeEncodeError)"
    by blast
  with p show ?thesis by (simp add: error_object_def)
qed

text \<open>
  Claim C7 as stated fails. For a payload whose headers are the list \<^verbatim>\<open>[1]\<close>, the
  call \<^verbatim>\<open>headers.pop(h, None)\<close> of line 116, outside the \<^verbatim>\<open>try\<close> block, raises
  \<^verbatim>\<open>TypeError\<close>. For the scenario against a target whose failure message holds a lone
  surrogate, the \<^verbatim>\<open>print\<close> of line 136 raises on a UTF-8 console.
\<close>

theorem C7_counterexample:
  "api_proxy (answering example_reply)
     (Json (JObj [(py ''targetUrl'', example_url), (py ''headers'', JList [JInt 1])])) =
     ([], Inl TypeError) \<and>
   api_proxy (failing [55296]) scenario = ([Outbound scenario_call], Inl UnicodeEncodeError)"
  by (simp add: run scenario_def scenario_call_def)

subsection \<open>Decoding\<close>

text \<open>
  Claim C8, as amended. When \<^verbatim>\<open>get_json\<close> delivers a false value (the body is absent,
  is not declared as JSON, fails to parse with a \<^verbatim>\<open>ValueError\<close>, or decodes to null,
  \<^verbatim>\<open>false\<close>, zero, the empty string, list or object), the payload is treated as the
  empty object and is answered with the validation response of status 400. The handler
  returns a JSON response of status 400 only when the payload, after this fallback, is an
  object whose \<^verbatim>\<open>targetUrl\<close> is missing or false, the response being that one. An
  exception that \<^verbatim>\<open>get_json\<close> lets through leaves the handler.
\<close>

theorem C8_lenient_decoding:
  "(\<forall>v. get_json request = Inr v \<and> \<not> truthy v \<longrightarrow>
      api_proxy rt request =
        ([], Inr (Jsonify (error_object (py ''targetUrl is required'')) 400))) \<and>
   (\<forall>j. snd (api_proxy rt request) = Inr (Jsonify j 400) \<longrightarrow>
      j = error_object (py ''targetUrl is required'') \<and>
      (\<exists>d. payload request = Inr (JObj d) \<and>
           \<not> truthy (dict_get d (py ''targetUrl'')))) \<and>
   (\<forall>e. get_json request = Inl e \<longrightarrow> api_proxy rt request = ([], Inl e))"
proof (intro conjI impI allI)
  fix v
  assume "get_json request = Inr v \<and> \<not> truthy v"
  then show "api_proxy rt request =
      ([], Inr (Jsonify (error_object (py ''targetUrl is required'')) 400))"
    using falsy_payload by blast
next
  fix j
  assume "snd (api_proxy rt request) = Inr (Jsonify j 400)"
  then have "j = error_object (py ''targetUrl is required'') \<and>
      (\<exists>d. payload request = Inr (JObj d) \<and>
           \<not> truthy (dict_get d (py ''targetUrl'')))"
    by (rule only_validation_is_400)
  then show "j = error_object (py ''targetUrl is required'')"
    and "\<exists>d. payload request = Inr (JObj d) \<and>
           \<not> truthy (dict_get d (py ''targetUrl''))"
    by blast+
next
  fix e
  assume "get_json request = Inl e"
  then show "api_proxy rt request = ([], Inl e)"
    by (rule decoder_raises)
qed

text \<open>
  No payload, and the payloads \<^verbatim>\<open>null\<close>, \<^verbatim>\<open>[]\<close> and the empty string.
\<close>

theorem C8_lenient_decoding_witness:
  "api_proxy (answering example_reply) NoJson =
     ([], Inr (Jsonify (error_object (py ''targetUrl is required'')) 400)) \<and>
   api_proxy (answering example_reply) (Json JNull) =
     ([], Inr (Jsonify (error_object (py ''targetUrl is required'')) 400)) \<and>
   api_proxy (answering example_reply) (Json (JList [])) =
     ([], Inr (Jsonify (error_object (py ''targetUrl is required'')) 400)) \<and>
   api_proxy (answering example_reply) (Json (JStr [])) =
     ([], Inr (Jsonify (error_object (py ''targetUrl is required'')) 400))"
proof -
  let ?rt = "answering example_reply"
  have f: "get_json NoJson = Inr JNull \<and> \<not> truthy JNull"
    "get_json (Json JNull) = Inr JNull \<and> \<not> truthy JNull"
    "get_json (Json (JList [])) = Inr (JList []) \<and> \<not> truthy (JList [])"
    "get_json (Json (JStr [])) = Inr (JStr []) \<and> \<not> truthy (JStr [])"
    by simp_all
  note n = C8_lenient_decoding [THEN conjunct1, THEN spec, THEN mp]
  from n [OF f(1), of ?rt] n [OF f(2), of ?rt] n [OF f(3), of ?rt] n [OF f(4), of ?rt]
  show ?thesis by (intro conjI)
qed

text \<open>
  Claim C8 as stated fails: the payloads \<^verbatim>\<open>[1]\<close> and \<^verbatim>\<open>"not an object"\<close> decode
  to values that are true and have no method \<^verbatim>\<open>get\<close>, so line 106 raises; and on a
  body nested too deeply line 105 itself raises \<^verbatim>\<open>RecursionError\<close>.
\<close>

theorem C8_counterexample:
  "api_proxy (answering example_reply) (Json (JList [JInt 1])) = ([], Inl AttributeError) \<and>
   api_proxy (answering example_reply) (Json (JStr (py ''not an object''))) =
     ([], Inl AttributeError) \<and>
   api_proxy (answering example_reply) TooDeep = ([], Inl RecursionError)"
  by (simp add: run)

subsection \<open>Time-out\<close>



subsection \<open>Null fields\<close>

text \<open>
  Claim C10. For a payload with a target: when the method is supplied as null or as the
  empty string (and the headers do not raise), the handler makes one call, with method
  \<^verbatim>\<open>POST\<close>; when the headers are supplied as null (and the method does not raise), the
  handler makes one call, with the empty header mapping, and no exception arises but the
  one \<^verbatim>\<open>print\<close> may raise after a failed call.
\<close>

theorem C10_null_method_and_headers:
  assumes "payload request = Inr (JObj d)"
    and "truthy (dict_get d (py ''targetUrl''))"
  shows "((dict_get d (py ''method'') = JNull \<or> dict_get d (py ''method'') = JStr []) \<and>
          (\<not> truthy (dict_get d (py ''headers'')) \<or> is_dict (dict_get d (py ''headers''))) \<longrightarrow>
            map req_method (calls (fst (api_proxy rt request))) = [py ''POST'']) \<and>
         (dict_get d (py ''headers'') = JNull \<and>
          (\<not> truthy (dict_get d (py ''method'')) \<or> is_str (dict_get d (py ''method''))) \<longrightarrow>
            map kw_headers (calls (fst (api_proxy rt request))) = [JObj []] \<and>
            ((\<exists>response. snd (api_proxy rt request) = Inr response) \<or>
             snd (api_proxy rt request) = Inl UnicodeEncodeError))"
proof (intro conjI impI)
  assume a: "(dict_get d (py ''method'') = JNull \<or> dict_get d (py ''method'') = JStr []) \<and>
             (\<not> truthy (dict_get d (py ''headers'')) \<or> is_dict (dict_get d (py ''headers'')))"
  then have m: "upper rt (py_or (dict_get d (py ''method'')) (JStr (py ''POST''))) = Inr (py ''POST'')"
    by (auto simp add: upper_or)
  from a pop_each_succeeds [of "dict_get d (py ''headers'')"] obtain headers where
    "pop_each (py_or (dict_get d (py ''headers'')) (JObj [])) stripped = Inr headers" by blast
  from one_call [OF assms m this] show "map req_method (calls (fst (api_proxy rt request))) = [py ''POST'']"
    by (simp add: outbound_call_def)
next
  assume a: "dict_get d (py ''headers'') = JNull \<and>
             (\<not> truthy (dict_get d (py ''method'')) \<or> is_str (dict_get d (py ''method'')))"
  then have h: "pop_each (py_or (dict_get d (py ''headers'')) (JObj [])) stripped = Inr (JObj [])"
    by (simp add: pop_each_or)
  from a upper_succeeds [of rt "dict_get d (py ''method'')"] obtain meth where
    m: "upper rt (py_or (dict_get d (py ''method'')) (JStr (py ''POST''))) = Inr meth" by blast
  from one_call [OF assms m h] show "map kw_headers (calls (fst (api_proxy rt request))) = [JObj []]"
    by (simp add: outbound_call_def)
  from answers_or_print_fails [OF assms m h]
  show "(\<exists>response. snd (api_proxy rt request) = Inr response) \<or>
        snd (api_proxy rt request) = Inl UnicodeEncodeError" .
qed

text \<open>
  The payload with null method and headers, and the payload with the empty method.
\<close>

theorem C10_null_method_and_headers_witness:
  "map req_method (calls (fst (api_proxy (answering example_reply) null_fields))) = [py ''POST''] \<and>
   map kw_headers (calls (fst (api_proxy (answering example_reply) null_fields))) = [JObj []] \<and>
   map req_method (calls (fst (api_proxy (answering example_reply) empty_method))) = [py ''POST'']"
proof -
  let ?rt = "answering example_reply"
  let ?d = "[(py ''targetUrl'', example_url), (py ''method'', JNull), (py ''headers'', JNull)]"
  let ?e = "[(py ''targetUrl'', example_url), (py ''method'', JStr [])]"
  have a: "payload null_fields = Inr (JObj ?d)"
    by (simp add: null_fields_def payload_def py_or_def)
  have b: "payload empty_method = Inr (JObj ?e)"
    by (simp add: empty_method_def payload_def py_or_def)
  have t: "truthy (dict_get ?d (py ''targetUrl''))" "truthy (dict_get ?e (py ''targetUrl''))"
    by (simp_all add: dict_get_def py_def example_url_def)
  have f: "dict_get ?d (py ''method'') = JNull" "dict_get ?d (py ''headers'') = JNull"
    "dict_get ?e (py ''method'') = JStr []" "dict_get ?e (py ''headers'') = JNull"
    by (simp_all add: dict_get_def py_def)
  have n: "(dict_get ?d (py ''method'') = JNull \<or> dict_get ?d (py ''method'') = JStr []) \<and>
           (\<not> truthy (dict_get ?d (py ''headers'')) \<or> is_dict (dict_get ?d (py ''headers'')))"
    by (simp add: f)
  have h: "dict_get ?d (py ''headers'') = JNull \<and>
           (\<not> truthy (dict_get ?d (py ''method'')) \<or> is_str (dict_get ?d (py ''method'')))"
    by (simp add: f)
  have e: "(dict_get ?e (py ''method'') = JNull \<or> dict_get ?e (py ''method'') = JStr []) \<and>
           (\<not> truthy (dict_get ?e (py ''headers'')) \<or> is_dict (dict_get ?e (py ''headers'')))"
    by (simp add: f)
  note first = C10_null_method_and_headers [OF a t(1), of ?rt]
  note second = C10_null_method_and_headers [OF b t(2), of ?rt]
  from first n have 1: "map req_method (calls (fst (api_proxy ?rt null_fields))) = [py ''POST'']"
    by blast
  from first h have 2: "map kw_headers (calls (fst (api_proxy ?rt null_fields))) = [JObj []]"
    by blast
  from second e have 3: "map req_method (calls (fst (api_proxy ?rt empty_method))) = [py ''POST'']"
    by blast
  from 1 2 3 show ?thesis by blast
qed

end
